theory Spec2Isabelle
  imports
    Complex_Main
    "HOL-Library.Multiset"
    "HOL-Library.Char_ord"
    "HOL-Library.List_Lexorder"
    "HOL-Library.Product_Lexorder"
begin

section \<open>The budget tracker: data model\<close>

text \<open>
  A shallow embedding of \<^verbatim>\<open>budget_tracker.py\<close>. The SQLite database is a record of four
  tables, each a list of rows in insertion order. Every operation takes the store and
  returns its outcome together with the store it leaves behind, so that a failure after
  a commit is visible as such.

  Python's \<^verbatim>\<open>float\<close> amounts are modelled as exact reals: the rounding of IEEE doubles is
  outside the model. The values drawn from \<^verbatim>\<open>uuid.uuid4()\<close> and
  \<^verbatim>\<open>datetime.utcnow()\<close> are inputs of the operation that draws them, listed after the
  arguments of the Python function in the order in which the code draws them.
\<close>

datatype BudgetStatus = DRAFT | APPROVED | ACTIVE | CLOSED

record Budget =
  title :: string
  fiscal_year :: int
  total_amount :: real
  department :: string
  status :: BudgetStatus
  budget_id :: string
  created_at :: string
  updated_at :: string
  approved_by :: "string option"
  approved_at :: "string option"
  budget_notes :: string

record BudgetLine =
  line_budget_id :: string
  category :: string
  subcategory :: string
  allocated :: real
  spent :: real
  committed :: real
  line_id :: string
  line_created_at :: string

record Expenditure =
  budget_line_id :: string
  vendor :: string
  amount :: real
  description :: string
  exp_approved_by :: string
  date :: string
  expenditure_id :: string
  exp_created_at :: string
  receipt_ref :: "string option"
  exp_category :: string

text \<open>
  The details column of the audit log is an f-string in the source. The model keeps what
  the f-string is built from and leaves the rendering of numbers out.
\<close>

datatype log_details =
    Budget_for string int
  | Line_allocated string string real
  | Approved_by string
  | No_details
  | Vendor_amount string real string
  | Amount_description real string

record AuditLogEntry =
  log_id :: string
  log_budget_id :: string
  action :: string
  details :: log_details
  timestamp :: string
  user_id :: string

record store =
  budgets :: "Budget list"
  budget_lines :: "BudgetLine list"
  expenditures :: "Expenditure list"
  audit_log :: "AuditLogEntry list"

text \<open>
  Every failure the source signals itself is a \<^verbatim>\<open>ValueError\<close>; the constructors below
  name the raise site by its message. \<open>IntegrityError\<close> is what SQLite raises when an
  \<^verbatim>\<open>INSERT\<close> repeats a primary key.
\<close>

datatype value_error =
    Budget_not_found string
  | Budget_line_not_found string
  | Cannot_add_lines BudgetStatus
  | Only_draft_budgets_can_be_approved
  | Only_approved_budgets_can_be_activated
  | Only_active_budgets_can_be_closed
  | Expenditure_exceeds_available real real
  | Cannot_commit real real

datatype error = ValueError value_error | IntegrityError

definition available :: "BudgetLine \<Rightarrow> real" where
  "available l = allocated l - spent l - committed l"

text \<open>
  Python's \<^verbatim>\<open>round(x, 2)\<close> on exact values: the nearest multiple of 1/100, a tie going
  to the even one.
\<close>

definition round_half_even :: "real \<Rightarrow> int" where
  "round_half_even x =
     (let f = \<lfloor>x\<rfloor>; d = x - of_int f
      in if d < 1 / 2 then f
         else if 1 / 2 < d then f + 1
         else if even f then f else f + 1)"

definition round2 :: "real \<Rightarrow> real" where
  "round2 x = of_int (round_half_even (x * 100)) / 100"

definition utilization_pct :: "BudgetLine \<Rightarrow> real" where
  "utilization_pct l =
     (if allocated l = 0 then 0 else round2 (spent l / allocated l * 100))"

definition empty_store :: store where
  "empty_store = \<lparr>budgets = [], budget_lines = [], expenditures = [], audit_log = []\<rparr>"

section \<open>Store access\<close>

definition fetch_budget :: "store \<Rightarrow> string \<Rightarrow> Budget option" where
  "fetch_budget s bid = find (\<lambda>b. budget_id b = bid) (budgets s)"

definition fetch_line :: "store \<Rightarrow> string \<Rightarrow> BudgetLine option" where
  "fetch_line s lid = find (\<lambda>l. line_id l = lid) (budget_lines s)"

definition update_budgets :: "string \<Rightarrow> (Budget \<Rightarrow> Budget) \<Rightarrow> store \<Rightarrow> store" where
  "update_budgets bid f s =
     s\<lparr>budgets := map (\<lambda>b. if budget_id b = bid then f b else b) (budgets s)\<rparr>"

definition update_lines :: "string \<Rightarrow> (BudgetLine \<Rightarrow> BudgetLine) \<Rightarrow> store \<Rightarrow> store" where
  "update_lines lid f s =
     s\<lparr>budget_lines := map (\<lambda>l. if line_id l = lid then f l else l) (budget_lines s)\<rparr>"

text \<open>
  \<^verbatim>\<open>_log\<close> opens a connection of its own and commits one row. It runs after the caller's
  commit, so when it fails the caller's change stays.
\<close>

definition log_audit ::
  "store \<Rightarrow> string \<Rightarrow> string \<Rightarrow> log_details \<Rightarrow> string \<Rightarrow> string \<Rightarrow> error + store" where
  "log_audit s bid act det uuid now =
     (if uuid \<in> set (map log_id (audit_log s)) then Inl IntegrityError
      else Inr (s\<lparr>audit_log := audit_log s @
             [\<lparr>log_id = uuid, log_budget_id = bid, action = act, details = det,
               timestamp = now, user_id = ''system''\<rparr>]\<rparr>))"

definition logged ::
  "store \<Rightarrow> string \<Rightarrow> string \<Rightarrow> log_details \<Rightarrow> string \<Rightarrow> string \<Rightarrow> 'a
     \<Rightarrow> (error + 'a) \<times> store" where
  "logged s bid act det uuid now r =
     (case log_audit s bid act det uuid now of
        Inl e \<Rightarrow> (Inl e, s)
      | Inr s' \<Rightarrow> (Inr r, s'))"

section \<open>Lifecycle operations\<close>

definition create_budget ::
  "store \<Rightarrow> string \<Rightarrow> int \<Rightarrow> real \<Rightarrow> string \<Rightarrow> string
     \<Rightarrow> string \<Rightarrow> string \<Rightarrow> string \<Rightarrow> string \<Rightarrow> string
     \<Rightarrow> (error + Budget) \<times> store" where
  "create_budget s ttl fy amt dept nts uuid now_created now_updated log_uuid log_now =
     (let budget = \<lparr>title = ttl, fiscal_year = fy, total_amount = amt, department = dept,
                     status = DRAFT, budget_id = uuid, created_at = now_created,
                     updated_at = now_updated, approved_by = None, approved_at = None,
                     budget_notes = nts\<rparr>
      in if uuid \<in> set (map budget_id (budgets s)) then (Inl IntegrityError, s)
         else logged (s\<lparr>budgets := budgets s @ [budget]\<rparr>) uuid ''CREATE_BUDGET''
                (Budget_for dept fy) log_uuid log_now budget)"

definition add_budget_line ::
  "store \<Rightarrow> string \<Rightarrow> string \<Rightarrow> string \<Rightarrow> real
     \<Rightarrow> string \<Rightarrow> string \<Rightarrow> string \<Rightarrow> string \<Rightarrow> string
     \<Rightarrow> (error + BudgetLine) \<times> store" where
  "add_budget_line s bid cat sub alloc uuid now_created now log_uuid log_now =
     (case fetch_budget s bid of
        None \<Rightarrow> (Inl (ValueError (Budget_not_found bid)), s)
      | Some row \<Rightarrow>
          if status row \<notin> {DRAFT, APPROVED}
          then (Inl (ValueError (Cannot_add_lines (status row))), s)
          else
            let line = \<lparr>line_budget_id = bid, category = cat, subcategory = sub,
                         allocated = alloc, spent = 0, committed = 0, line_id = uuid,
                         line_created_at = now_created\<rparr>
            in if uuid \<in> set (map line_id (budget_lines s)) then (Inl IntegrityError, s)
               else logged
                      (update_budgets bid (\<lambda>b. b\<lparr>updated_at := now\<rparr>)
                         (s\<lparr>budget_lines := budget_lines s @ [line]\<rparr>))
                      bid ''ADD_LINE'' (Line_allocated cat sub alloc) log_uuid log_now line)"

definition approve_budget ::
  "store \<Rightarrow> string \<Rightarrow> string \<Rightarrow> string \<Rightarrow> string \<Rightarrow> string \<Rightarrow> (error + bool) \<times> store" where
  "approve_budget s bid approver now log_uuid log_now =
     (case fetch_budget s bid of
        None \<Rightarrow> (Inl (ValueError (Budget_not_found bid)), s)
      | Some row \<Rightarrow>
          if status row \<noteq> DRAFT
          then (Inl (ValueError Only_draft_budgets_can_be_approved), s)
          else logged
                 (update_budgets bid
                    (\<lambda>b. b\<lparr>status := APPROVED, approved_by := Some approver,
                            approved_at := Some now, updated_at := now\<rparr>) s)
                 bid ''APPROVE_BUDGET'' (Approved_by approver) log_uuid log_now True)"

definition activate_budget ::
  "store \<Rightarrow> string \<Rightarrow> string \<Rightarrow> string \<Rightarrow> string \<Rightarrow> (error + bool) \<times> store" where
  "activate_budget s bid now log_uuid log_now =
     (case fetch_budget s bid of
        None \<Rightarrow> (Inl (ValueError (Budget_not_found bid)), s)
      | Some row \<Rightarrow>
          if status row \<noteq> APPROVED
          then (Inl (ValueError Only_approved_budgets_can_be_activated), s)
          else logged
                 (update_budgets bid (\<lambda>b. b\<lparr>status := ACTIVE, updated_at := now\<rparr>) s)
                 bid ''ACTIVATE_BUDGET'' No_details log_uuid log_now True)"

definition close_budget ::
  "store \<Rightarrow> string \<Rightarrow> string \<Rightarrow> string \<Rightarrow> string \<Rightarrow> (error + bool) \<times> store" where
  "close_budget s bid now log_uuid log_now =
     (case fetch_budget s bid of
        None \<Rightarrow> (Inl (ValueError (Budget_not_found bid)), s)
      | Some row \<Rightarrow>
          if status row \<noteq> ACTIVE
          then (Inl (ValueError Only_active_budgets_can_be_closed), s)
          else logged
                 (update_budgets bid (\<lambda>b. b\<lparr>status := CLOSED, updated_at := now\<rparr>) s)
                 bid ''CLOSE_BUDGET'' No_details log_uuid log_now True)"

section \<open>Funds operations\<close>

definition record_expenditure ::
  "store \<Rightarrow> string \<Rightarrow> string \<Rightarrow> real \<Rightarrow> string \<Rightarrow> string \<Rightarrow> string option \<Rightarrow> string option
     \<Rightarrow> string \<Rightarrow> string \<Rightarrow> string \<Rightarrow> string \<Rightarrow> string
     \<Rightarrow> (error + Expenditure) \<times> store" where
  "record_expenditure s lid vnd amt descr approver dt receipt
       now_date uuid now_created log_uuid log_now =
     (case fetch_line s lid of
        None \<Rightarrow> (Inl (ValueError (Budget_line_not_found lid)), s)
      | Some line \<Rightarrow>
          let avail = allocated line - spent line - committed line
          in if avail < amt
             then (Inl (ValueError (Expenditure_exceeds_available amt avail)), s)
             else
               let exp_date = (case dt of
                                 None \<Rightarrow> take 10 now_date
                               | Some d \<Rightarrow> if d = [] then take 10 now_date else d);
                   exp = \<lparr>budget_line_id = lid, vendor = vnd, amount = amt,
                          description = descr, exp_approved_by = approver, date = exp_date,
                          expenditure_id = uuid, exp_created_at = now_created,
                          receipt_ref = receipt, exp_category = category line\<rparr>
               in if uuid \<in> set (map expenditure_id (expenditures s))
                  then (Inl IntegrityError, s)
                  else logged
                         (update_lines lid (\<lambda>l. l\<lparr>spent := spent l + amt\<rparr>)
                            (s\<lparr>expenditures := expenditures s @ [exp]\<rparr>))
                         (line_budget_id line) ''RECORD_EXPENDITURE''
                         (Vendor_amount vnd amt descr) log_uuid log_now exp)"

definition commit_funds ::
  "store \<Rightarrow> string \<Rightarrow> real \<Rightarrow> string \<Rightarrow> string \<Rightarrow> string \<Rightarrow> (error + bool) \<times> store" where
  "commit_funds s lid amt descr log_uuid log_now =
     (case fetch_line s lid of
        None \<Rightarrow> (Inl (ValueError (Budget_line_not_found lid)), s)
      | Some line \<Rightarrow>
          let avail = allocated line - spent line - committed line
          in if avail < amt
             then (Inl (ValueError (Cannot_commit amt avail)), s)
             else logged
                    (update_lines lid (\<lambda>l. l\<lparr>committed := committed l + amt\<rparr>) s)
                    (line_budget_id line) ''COMMIT_FUNDS''
                    (Amount_description amt descr) log_uuid log_now True)"

section \<open>Variance and compliance\<close>

record LineVariance =
  lv_line_id :: string
  lv_category :: string
  lv_subcategory :: string
  lv_allocated :: real
  lv_spent :: real
  lv_committed :: real
  lv_available :: real
  lv_utilization_pct :: real
  lv_status :: string


text \<open>
  The rows of one budget, in the table's order, and the same rows as the query of
  \<^verbatim>\<open>get_variance\<close> returns them: ordered by category, then subcategory (bytewise, as
  SQLite compares text). SQL leaves the order of rows with equal keys open; the model
  keeps them in the table's order.
\<close>

definition lines_of :: "store \<Rightarrow> string \<Rightarrow> BudgetLine list" where
  "lines_of s bid = filter (\<lambda>l. line_budget_id l = bid) (budget_lines s)"

definition select_lines :: "store \<Rightarrow> string \<Rightarrow> BudgetLine list" where
  "select_lines s bid = sort_key (\<lambda>l. (category l, subcategory l)) (lines_of s bid)"

definition line_variance :: "BudgetLine \<Rightarrow> LineVariance" where
  "line_variance l =
     (let avail = allocated l - spent l - committed l;
          pct = (if 0 < allocated l then round2 (spent l / allocated l * 100) else 0)
      in \<lparr>lv_line_id = line_id l, lv_category = category l,
          lv_subcategory = subcategory l, lv_allocated = allocated l,
          lv_spent = spent l, lv_committed = committed l, lv_available = avail,
          lv_utilization_pct = pct,
          lv_status = (if avail < 0 then ''over_budget''
                       else if 80 < pct then ''warning'' else ''ok'')\<rparr>)"









section \<open>Sequences of calls\<close>

text \<open>
  One constructor for each mutating operation, with the arguments of its definition
  above. Running a call keeps the store the operation leaves behind, whether it
  succeeded or raised.
\<close>

datatype call =
    Create_budget string int real string string string string string string string
  | Add_budget_line string string string real string string string string string
  | Approve_budget string string string string string
  | Activate_budget string string string string
  | Record_expenditure string string real string string "string option" "string option"
      string string string string string
  | Commit_funds string real string string string
  | Close_budget string string string string

fun exec :: "store \<Rightarrow> call \<Rightarrow> store" where
  "exec s (Create_budget ttl fy amt dept nts uuid t1 t2 lu lt) =
     snd (create_budget s ttl fy amt dept nts uuid t1 t2 lu lt)"
| "exec s (Add_budget_line bid cat sub alloc uuid t1 t2 lu lt) =
     snd (add_budget_line s bid cat sub alloc uuid t1 t2 lu lt)"
| "exec s (Approve_budget bid approver t lu lt) =
     snd (approve_budget s bid approver t lu lt)"
| "exec s (Activate_budget bid t lu lt) = snd (activate_budget s bid t lu lt)"
| "exec s (Record_expenditure lid vnd amt descr approver dt receipt t0 uuid t1 lu lt) =
     snd (record_expenditure s lid vnd amt descr approver dt receipt t0 uuid t1 lu lt)"
| "exec s (Commit_funds lid amt descr lu lt) = snd (commit_funds s lid amt descr lu lt)"
| "exec s (Close_budget bid t lu lt) = snd (close_budget s bid t lu lt)"

definition run :: "store \<Rightarrow> call list \<Rightarrow> store" where
  "run s cs = foldl exec s cs"



section \<open>Example stores\<close>

text \<open>
  Stores built through the operations themselves, used where a statement is evaluated at
  a concrete input. The first is the budget of the test suite's \<^verbatim>\<open>make_budget\<close>.
\<close>

definition store_draft :: store where
  "store_draft = run empty_store
     [Create_budget ''FY2025 Budget'' 2025 1000000 ''Finance'' [] ''b1'' ''t0'' ''t0''
        ''g1'' ''t0'']"

definition store_approved :: store where
  "store_approved = run store_draft [Approve_budget ''b1'' ''Director'' ''t1'' ''g2'' ''t1'']"

definition store_active :: store where
  "store_active = run store_approved [Activate_budget ''b1'' ''t2'' ''g3'' ''t2'']"







section \<open>Facts about the store\<close>

lemmas op_defs = run_def empty_store_def create_budget_def add_budget_line_def
  approve_budget_def activate_budget_def close_budget_def record_expenditure_def
  commit_funds_def logged_def log_audit_def fetch_budget_def fetch_line_def
  update_budgets_def update_lines_def Let_def


subsection \<open>Rows by key\<close>

lemma find_map_update:
  assumes "\<And>x. key (f x) = key x"
  shows "find (\<lambda>x. key x = k) (map (\<lambda>x. if key x = k then f x else x) xs)
         = map_option f (find (\<lambda>x. key x = k) xs)"
  using assms by (induction xs) auto

lemma find_map_update_other:
  assumes "\<And>x. key (f x) = key x" and "k' \<noteq> k"
  shows "find (\<lambda>x. key x = k') (map (\<lambda>x. if key x = k then f x else x) xs)
         = find (\<lambda>x. key x = k') xs"
  using assms by (induction xs) auto


lemma find_append_fresh:
  "k \<notin> set (map key xs) \<Longrightarrow> key y = k \<Longrightarrow> find (\<lambda>x. key x = k) (xs @ [y]) = Some y"
  by (induction xs) auto

lemma find_append_other:
  "key y \<noteq> k \<Longrightarrow> find (\<lambda>x. key x = k) (xs @ [y]) = find (\<lambda>x. key x = k) xs"
  by (induction xs) auto



subsection \<open>The audit log leaves the other tables alone\<close>

lemma logged_tables [simp]:
  "budgets (snd (logged s bid act det uuid now r)) = budgets s"
  "budget_lines (snd (logged s bid act det uuid now r)) = budget_lines s"
  "expenditures (snd (logged s bid act det uuid now r)) = expenditures s"
  by (simp_all add: logged_def log_audit_def)

lemma logged_fresh:
  "uuid \<notin> set (map log_id (audit_log s)) \<Longrightarrow>
   logged s bid act det uuid now r =
     (Inr r, s\<lparr>audit_log := audit_log s @
             [\<lparr>log_id = uuid, log_budget_id = bid, action = act, details = det,
               timestamp = now, user_id = ''system''\<rparr>]\<rparr>)"
  by (simp add: logged_def log_audit_def)

lemma fetch_budget_logged [simp]:
  "fetch_budget (snd (logged s bid act det uuid now r)) x = fetch_budget s x"
  by (simp add: fetch_budget_def)

lemma fetch_line_logged [simp]:
  "fetch_line (snd (logged s bid act det uuid now r)) x = fetch_line s x"
  by (simp add: fetch_line_def)

lemma fetch_budget_update:
  "(\<And>b. budget_id (f b) = budget_id b) \<Longrightarrow>
   fetch_budget (update_budgets bid f s) bid = map_option f (fetch_budget s bid)"
  unfolding fetch_budget_def update_budgets_def
  using find_map_update [of budget_id f bid "budgets s"] by simp

lemma fetch_budget_update_other:
  "(\<And>b. budget_id (f b) = budget_id b) \<Longrightarrow> x \<noteq> bid \<Longrightarrow>
   fetch_budget (update_budgets bid f s) x = fetch_budget s x"
  unfolding fetch_budget_def update_budgets_def
  using find_map_update_other [of budget_id f x bid "budgets s"] by simp


lemma update_budgets_tables [simp]:
  "budget_lines (update_budgets bid f s) = budget_lines s"
  "expenditures (update_budgets bid f s) = expenditures s"
  "audit_log (update_budgets bid f s) = audit_log s"
  by (simp_all add: update_budgets_def)

lemma update_lines_tables [simp]:
  "budgets (update_lines lid f s) = budgets s"
  "expenditures (update_lines lid f s) = expenditures s"
  "audit_log (update_lines lid f s) = audit_log s"
  by (simp_all add: update_lines_def)

subsection \<open>What each call does to the lines table\<close>

lemma lines_after_budget_calls [simp]:
  "budget_lines (snd (create_budget s ttl fy amt dept nts uuid t1 t2 lu lt)) = budget_lines s"
  "budget_lines (snd (approve_budget s bid approver t lu lt)) = budget_lines s"
  "budget_lines (snd (activate_budget s bid t lu lt)) = budget_lines s"
  "budget_lines (snd (close_budget s bid t lu lt)) = budget_lines s"
  by (simp_all add: create_budget_def approve_budget_def activate_budget_def
        close_budget_def Let_def split: option.splits)








subsection \<open>The ledger invariant, one call at a time\<close>



subsection \<open>Accumulators and available funds, one call at a time\<close>



lemma fetch_line_expenditures [simp]:
  "fetch_line (s\<lparr>expenditures := es\<rparr>) lid = fetch_line s lid"
  by (simp add: fetch_line_def)





subsection \<open>Rounding\<close>






subsection \<open>The variance report\<close>

lemma set_select_lines: "set (select_lines s bid) = set (lines_of s bid)"
  by (simp add: select_lines_def)

lemma length_select_lines: "length (select_lines s bid) = length (lines_of s bid)"
  by (simp add: select_lines_def)




lemma line_variance_fields [simp]:
  "lv_available (line_variance l) = available l"
  "lv_category (line_variance l) = category l"
  "lv_subcategory (line_variance l) = subcategory l"
  by (simp_all add: line_variance_def Let_def available_def)



lemma set_filter_select_lines:
  "set (filter P (select_lines s bid)) = set (filter P (lines_of s bid))"
  by (simp add: set_select_lines)

subsection \<open>The compliance loop\<close>





section \<open>The claims\<close>

subsection \<open>C1: spent plus committed stays within the allocation\<close>




subsection \<open>C2: a request beyond the available funds changes nothing\<close>



subsection \<open>C3: creating a budget\<close>

text \<open>
  Claim C3, as amended. \<^verbatim>\<open>create_budget\<close> checks nothing about \<open>total_amount\<close>:
  for every total amount, negative ones included, and with a budget id and a log id
  that are not yet in use, it returns the new budget in status \<open>DRAFT\<close> with the
  generated id and timestamps, appends it to the budgets table, where a lookup by the id
  finds it, and appends the \<^verbatim>\<open>CREATE_BUDGET\<close> audit entry.
\<close>

theorem create_budget_persists_draft:
  assumes "uuid \<notin> set (map budget_id (budgets s))"
    and "lu \<notin> set (map log_id (audit_log s))"
  shows "create_budget s ttl fy amt dept nts uuid t1 t2 lu lt
           = (Inr \<lparr>title = ttl, fiscal_year = fy, total_amount = amt, department = dept,
                    status = DRAFT, budget_id = uuid, created_at = t1, updated_at = t2,
                    approved_by = None, approved_at = None, budget_notes = nts\<rparr>,
              s\<lparr>budgets := budgets s @
                   [\<lparr>title = ttl, fiscal_year = fy, total_amount = amt, department = dept,
                     status = DRAFT, budget_id = uuid, created_at = t1, updated_at = t2,
                     approved_by = None, approved_at = None, budget_notes = nts\<rparr>],
                audit_log := audit_log s @
                   [\<lparr>log_id = lu, log_budget_id = uuid, action = ''CREATE_BUDGET'',
                     details = Budget_for dept fy, timestamp = lt,
                     user_id = ''system''\<rparr>]\<rparr>)
       \<and> fetch_budget (snd (create_budget s ttl fy amt dept nts uuid t1 t2 lu lt)) uuid
           = Some \<lparr>title = ttl, fiscal_year = fy, total_amount = amt, department = dept,
                    status = DRAFT, budget_id = uuid, created_at = t1, updated_at = t2,
                    approved_by = None, approved_at = None, budget_notes = nts\<rparr>"
proof -
  let ?b = "\<lparr>title = ttl, fiscal_year = fy, total_amount = amt, department = dept,
             status = DRAFT, budget_id = uuid, created_at = t1, updated_at = t2,
             approved_by = None, approved_at = None, budget_notes = nts\<rparr>"
  have "find (\<lambda>x. budget_id x = uuid) (budgets s @ [?b]) = Some ?b"
    using assms(1) by (intro find_append_fresh) simp_all
  with assms show ?thesis
    by (simp add: create_budget_def logged_def log_audit_def fetch_budget_def Let_def)
qed

theorem create_budget_persists_draft_witness:
  "''b1'' \<notin> set (map budget_id (budgets empty_store))
   \<and> ''g1'' \<notin> set (map log_id (audit_log empty_store))
   \<and> create_budget empty_store ''FY2025 Budget'' 2025 0 ''Finance'' [] ''b1'' ''t0'' ''t0''
         ''g1'' ''t0''
       = (Inr \<lparr>title = ''FY2025 Budget'', fiscal_year = 2025, total_amount = 0,
                department = ''Finance'', status = DRAFT, budget_id = ''b1'',
                created_at = ''t0'', updated_at = ''t0'', approved_by = None,
                approved_at = None, budget_notes = []\<rparr>,
          \<lparr>budgets =
             [\<lparr>title = ''FY2025 Budget'', fiscal_year = 2025, total_amount = 0,
                department = ''Finance'', status = DRAFT, budget_id = ''b1'',
                created_at = ''t0'', updated_at = ''t0'', approved_by = None,
                approved_at = None, budget_notes = []\<rparr>],
           budget_lines = [], expenditures = [],
           audit_log =
             [\<lparr>log_id = ''g1'', log_budget_id = ''b1'', action = ''CREATE_BUDGET'',
               details = Budget_for ''Finance'' 2025, timestamp = ''t0'',
               user_id = ''system''\<rparr>]\<rparr>)"
proof -
  have fresh: "''b1'' \<notin> set (map budget_id (budgets empty_store))"
    by (simp add: empty_store_def)
  have log_fresh: "''g1'' \<notin> set (map log_id (audit_log empty_store))"
    by (simp add: empty_store_def)
  have "create_budget empty_store ''FY2025 Budget'' 2025 0 ''Finance'' [] ''b1'' ''t0'' ''t0''
         ''g1'' ''t0''
       = (Inr \<lparr>title = ''FY2025 Budget'', fiscal_year = 2025, total_amount = 0,
                department = ''Finance'', status = DRAFT, budget_id = ''b1'',
                created_at = ''t0'', updated_at = ''t0'', approved_by = None,
                approved_at = None, budget_notes = []\<rparr>,
          \<lparr>budgets =
             [\<lparr>title = ''FY2025 Budget'', fiscal_year = 2025, total_amount = 0,
                department = ''Finance'', status = DRAFT, budget_id = ''b1'',
                created_at = ''t0'', updated_at = ''t0'', approved_by = None,
                approved_at = None, budget_notes = []\<rparr>],
           budget_lines = [], expenditures = [],
           audit_log =
             [\<lparr>log_id = ''g1'', log_budget_id = ''b1'', action = ''CREATE_BUDGET'',
               details = Budget_for ''Finance'' 2025, timestamp = ''t0'',
               user_id = ''system''\<rparr>]\<rparr>)"
    using create_budget_persists_draft [OF fresh log_fresh, of "''FY2025 Budget''" 2025 0
      "''Finance''" "[]" "''t0''" "''t0''" "''t0''"]
    by (simp add: empty_store_def)
  with fresh log_fresh show ?thesis by blast
qed

text \<open>
  The claim as written has a negative total rejected with nothing persisted. The code
  persists the budget.
\<close>

theorem create_budget_accepts_negative_total:
  "create_budget empty_store ''Deficit'' 2025 (- 1) ''Finance'' [] ''b1'' ''t0'' ''t0''
      ''g1'' ''t0''
     = (Inr \<lparr>title = ''Deficit'', fiscal_year = 2025, total_amount = - 1,
              department = ''Finance'', status = DRAFT, budget_id = ''b1'',
              created_at = ''t0'', updated_at = ''t0'', approved_by = None,
              approved_at = None, budget_notes = []\<rparr>,
        \<lparr>budgets =
           [\<lparr>title = ''Deficit'', fiscal_year = 2025, total_amount = - 1,
              department = ''Finance'', status = DRAFT, budget_id = ''b1'',
              created_at = ''t0'', updated_at = ''t0'', approved_by = None,
              approved_at = None, budget_notes = []\<rparr>],
         budget_lines = [], expenditures = [],
         audit_log =
           [\<lparr>log_id = ''g1'', log_budget_id = ''b1'', action = ''CREATE_BUDGET'',
             details = Budget_for ''Finance'' 2025, timestamp = ''t0'',
             user_id = ''system''\<rparr>]\<rparr>)"
  by (simp add: op_defs)

subsection \<open>C4: the order of status transitions\<close>

text \<open>
  Claim C4. For a budget that exists, \<^verbatim>\<open>approve_budget\<close> called in any status but
  \<open>DRAFT\<close>, \<^verbatim>\<open>activate_budget\<close> in any but \<open>APPROVED\<close> and
  \<^verbatim>\<open>close_budget\<close> in any but \<open>ACTIVE\<close> raise the state error of that
  operation (the spec's InvalidState) and leave the store, and so the status, as it was;
  a \<open>CLOSED\<close> budget therefore rejects all three. Called in the required status,
  each moves the budget to the next status, \<open>DRAFT\<close> to \<open>APPROVED\<close> to
  \<open>ACTIVE\<close> to \<open>CLOSED\<close>, and returns \<open>True\<close> when the log id drawn is
  not yet in use.
\<close>

theorem status_transitions_in_order:
  assumes "fetch_budget s bid = Some b"
  shows "(status b \<noteq> DRAFT \<longrightarrow>
            approve_budget s bid approver now lu lt
              = (Inl (ValueError Only_draft_budgets_can_be_approved), s))
       \<and> (status b \<noteq> APPROVED \<longrightarrow>
            activate_budget s bid now lu lt
              = (Inl (ValueError Only_approved_budgets_can_be_activated), s))
       \<and> (status b \<noteq> ACTIVE \<longrightarrow>
            close_budget s bid now lu lt
              = (Inl (ValueError Only_active_budgets_can_be_closed), s))
       \<and> (status b = DRAFT \<longrightarrow>
            map_option status (fetch_budget (snd (approve_budget s bid approver now lu lt)) bid)
              = Some APPROVED
            \<and> (lu \<notin> set (map log_id (audit_log s)) \<longrightarrow>
                 fst (approve_budget s bid approver now lu lt) = Inr True))
       \<and> (status b = APPROVED \<longrightarrow>
            map_option status (fetch_budget (snd (activate_budget s bid now lu lt)) bid)
              = Some ACTIVE
            \<and> (lu \<notin> set (map log_id (audit_log s)) \<longrightarrow>
                 fst (activate_budget s bid now lu lt) = Inr True))
       \<and> (status b = ACTIVE \<longrightarrow>
            map_option status (fetch_budget (snd (close_budget s bid now lu lt)) bid)
              = Some CLOSED
            \<and> (lu \<notin> set (map log_id (audit_log s)) \<longrightarrow>
                 fst (close_budget s bid now lu lt) = Inr True))"
  using assms
  by (simp add: approve_budget_def activate_budget_def close_budget_def
        fetch_budget_update logged_fresh)

theorem status_transitions_in_order_witness:
  "map_option status (fetch_budget store_approved ''b1'') = Some APPROVED
   \<and> approve_budget store_approved ''b1'' ''Director'' ''t2'' ''g3'' ''t2''
       = (Inl (ValueError Only_draft_budgets_can_be_approved), store_approved)
   \<and> close_budget store_approved ''b1'' ''t2'' ''g3'' ''t2''
       = (Inl (ValueError Only_active_budgets_can_be_closed), store_approved)
   \<and> fst (activate_budget store_approved ''b1'' ''t2'' ''g3'' ''t2'') = Inr True
   \<and> map_option status
         (fetch_budget (snd (activate_budget store_approved ''b1'' ''t2'' ''g3'' ''t2'')) ''b1'')
       = Some ACTIVE"
proof -
  let ?b = "\<lparr>title = ''FY2025 Budget'', fiscal_year = 2025, total_amount = 1000000,
              department = ''Finance'', status = APPROVED, budget_id = ''b1'',
              created_at = ''t0'', updated_at = ''t1'', approved_by = Some ''Director'',
              approved_at = Some ''t1'', budget_notes = []\<rparr>"
  have found: "fetch_budget store_approved ''b1'' = Some ?b"
    by (simp add: store_approved_def store_draft_def op_defs)
  have fresh: "''g3'' \<notin> set (map log_id (audit_log store_approved))"
    by (simp add: store_approved_def store_draft_def op_defs)
  from status_transitions_in_order [OF found, of "''Director''" "''t2''" "''g3''" "''t2''"]
    found fresh
  show ?thesis by simp
qed

subsection \<open>C5: adding a line\<close>

text \<open>
  Claim C5. \<^verbatim>\<open>add_budget_line\<close> raises "not found" for a budget id that is not
  in the store; for a budget in status \<open>ACTIVE\<close> or \<open>CLOSED\<close> it raises "Cannot
  add lines" (the spec's InvalidState) and leaves the store as it was; for a budget in
  status \<open>DRAFT\<close> or \<open>APPROVED\<close> it returns the new line and appends it to the
  lines table, for every value of \<open>allocated\<close> and whatever the budget's
  \<open>total_amount\<close>, when the line id and the log id drawn are not yet in use.
\<close>

theorem add_budget_line_outcomes:
  "(fetch_budget s bid = None \<longrightarrow>
      add_budget_line s bid cat sub alloc uuid t1 t2 lu lt
        = (Inl (ValueError (Budget_not_found bid)), s))
 \<and> (fetch_budget s bid = Some b \<and> (status b = ACTIVE \<or> status b = CLOSED) \<longrightarrow>
      add_budget_line s bid cat sub alloc uuid t1 t2 lu lt
        = (Inl (ValueError (Cannot_add_lines (status b))), s))
 \<and> (fetch_budget s bid = Some b \<and> (status b = DRAFT \<or> status b = APPROVED)
      \<and> uuid \<notin> set (map line_id (budget_lines s))
      \<and> lu \<notin> set (map log_id (audit_log s)) \<longrightarrow>
      fst (add_budget_line s bid cat sub alloc uuid t1 t2 lu lt)
        = Inr \<lparr>line_budget_id = bid, category = cat, subcategory = sub, allocated = alloc,
               spent = 0, committed = 0, line_id = uuid, line_created_at = t1\<rparr>
      \<and> budget_lines (snd (add_budget_line s bid cat sub alloc uuid t1 t2 lu lt))
        = budget_lines s @
          [\<lparr>line_budget_id = bid, category = cat, subcategory = sub, allocated = alloc,
            spent = 0, committed = 0, line_id = uuid, line_created_at = t1\<rparr>]
      \<and> fetch_line (snd (add_budget_line s bid cat sub alloc uuid t1 t2 lu lt)) uuid
        = Some \<lparr>line_budget_id = bid, category = cat, subcategory = sub, allocated = alloc,
                 spent = 0, committed = 0, line_id = uuid, line_created_at = t1\<rparr>)"
proof -
  let ?l = "\<lparr>line_budget_id = bid, category = cat, subcategory = sub, allocated = alloc,
             spent = 0, committed = 0, line_id = uuid, line_created_at = t1\<rparr>"
  have "find (\<lambda>x. line_id x = uuid) (budget_lines s @ [?l]) = Some ?l"
    if "uuid \<notin> set (map line_id (budget_lines s))"
    using that by (intro find_append_fresh) simp_all
  then show ?thesis
    by (auto simp add: add_budget_line_def logged_def log_audit_def fetch_line_def
          update_budgets_def Let_def)
qed

theorem add_budget_line_outcomes_witness:
  "fetch_budget empty_store ''b9'' = None
   \<and> add_budget_line empty_store ''b9'' ''Tech'' ''Cloud'' 5000000 ''l1'' ''t3'' ''t3''
         ''g4'' ''t3''
       = (Inl (ValueError (Budget_not_found ''b9'')), empty_store)
   \<and> map_option status (fetch_budget store_active ''b1'') = Some ACTIVE
   \<and> add_budget_line store_active ''b1'' ''Tech'' ''Cloud'' 5000000 ''l1'' ''t3'' ''t3''
         ''g4'' ''t3''
       = (Inl (ValueError (Cannot_add_lines ACTIVE)), store_active)
   \<and> map_option status (fetch_budget store_approved ''b1'') = Some APPROVED
   \<and> map_option total_amount (fetch_budget store_approved ''b1'') = Some 1000000
   \<and> fst (add_budget_line store_approved ''b1'' ''Tech'' ''Cloud'' 5000000 ''l1'' ''t3''
             ''t3'' ''g4'' ''t3'')
       = Inr \<lparr>line_budget_id = ''b1'', category = ''Tech'', subcategory = ''Cloud'',
              allocated = 5000000, spent = 0, committed = 0, line_id = ''l1'',
              line_created_at = ''t3''\<rparr>
   \<and> fetch_line (snd (add_budget_line store_approved ''b1'' ''Tech'' ''Cloud'' 5000000 ''l1''
                         ''t3'' ''t3'' ''g4'' ''t3'')) ''l1''
       = Some \<lparr>line_budget_id = ''b1'', category = ''Tech'', subcategory = ''Cloud'',
                allocated = 5000000, spent = 0, committed = 0, line_id = ''l1'',
                line_created_at = ''t3''\<rparr>"
proof -
  let ?active = "\<lparr>title = ''FY2025 Budget'', fiscal_year = 2025, total_amount = 1000000,
              department = ''Finance'', status = ACTIVE, budget_id = ''b1'',
              created_at = ''t0'', updated_at = ''t2'', approved_by = Some ''Director'',
              approved_at = Some ''t1'', budget_notes = []\<rparr>"
  let ?approved = "\<lparr>title = ''FY2025 Budget'', fiscal_year = 2025, total_amount = 1000000,
              department = ''Finance'', status = APPROVED, budget_id = ''b1'',
              created_at = ''t0'', updated_at = ''t1'', approved_by = Some ''Director'',
              approved_at = Some ''t1'', budget_notes = []\<rparr>"
  have absent: "fetch_budget empty_store ''b9'' = None"
    by (simp add: op_defs)
  have active: "fetch_budget store_active ''b1'' = Some ?active"
    by (simp add: store_active_def store_approved_def store_draft_def op_defs)
  have approved: "fetch_budget store_approved ''b1'' = Some ?approved"
    by (simp add: store_approved_def store_draft_def op_defs)
  have fresh: "''l1'' \<notin> set (map line_id (budget_lines store_approved))"
    "''g4'' \<notin> set (map log_id (audit_log store_approved))"
    by (simp_all add: store_approved_def store_draft_def op_defs)
  from absent
    add_budget_line_outcomes [of empty_store "''b9''" "''Tech''" "''Cloud''" 5000000 "''l1''"
      "''t3''" "''t3''" "''g4''" "''t3''"]
  have 1: "add_budget_line empty_store ''b9'' ''Tech'' ''Cloud'' 5000000 ''l1'' ''t3'' ''t3''
         ''g4'' ''t3'' = (Inl (ValueError (Budget_not_found ''b9'')), empty_store)"
    by blast
  from active
    add_budget_line_outcomes [of store_active "''b1''" "''Tech''" "''Cloud''" 5000000 "''l1''"
      "''t3''" "''t3''" "''g4''" "''t3''" ?active]
  have 2: "add_budget_line store_active ''b1'' ''Tech'' ''Cloud'' 5000000 ''l1'' ''t3'' ''t3''
         ''g4'' ''t3'' = (Inl (ValueError (Cannot_add_lines ACTIVE)), store_active)"
    by simp
  from approved fresh
    add_budget_line_outcomes [of store_approved "''b1''" "''Tech''" "''Cloud''" 5000000
      "''l1''" "''t3''" "''t3''" "''g4''" "''t3''" ?approved]
  have 3: "fst (add_budget_line store_approved ''b1'' ''Tech'' ''Cloud'' 5000000 ''l1'' ''t3''
             ''t3'' ''g4'' ''t3'')
       = Inr \<lparr>line_budget_id = ''b1'', category = ''Tech'', subcategory = ''Cloud'',
              allocated = 5000000, spent = 0, committed = 0, line_id = ''l1'',
              line_created_at = ''t3''\<rparr>
   \<and> fetch_line (snd (add_budget_line store_approved ''b1'' ''Tech'' ''Cloud'' 5000000 ''l1''
                         ''t3'' ''t3'' ''g4'' ''t3'')) ''l1''
       = Some \<lparr>line_budget_id = ''b1'', category = ''Tech'', subcategory = ''Cloud'',
                allocated = 5000000, spent = 0, committed = 0, line_id = ''l1'',
                line_created_at = ''t3''\<rparr>"
    by simp
  from absent active approved 1 2 3 show ?thesis by simp
qed

subsection \<open>C6: the totals of the variance report\<close>




subsection \<open>C7: the compliance report\<close>




subsection \<open>C8: the accumulators and the available funds stay non-negative\<close>




subsection \<open>C9: the status tag of a report line\<close>



subsection \<open>C10: what activation and closure leave alone\<close>

text \<open>
  Claim C10. For a budget in status \<open>APPROVED\<close>, \<^verbatim>\<open>activate_budget\<close> leaves a
  store in which the budget differs from before in \<open>status\<close> (now \<open>ACTIVE\<close>) and
  \<open>updated_at\<close> only, every other budget is as before, and the lines and expenditures
  tables are unchanged. The same holds of \<^verbatim>\<open>close_budget\<close> for a budget in status
  \<open>ACTIVE\<close>, with \<open>CLOSED\<close>.
\<close>

theorem activate_and_close_frame:
  assumes "fetch_budget s bid = Some b"
  shows "(status b = APPROVED \<longrightarrow>
            fetch_budget (snd (activate_budget s bid now lu lt)) bid
              = Some (b\<lparr>status := ACTIVE, updated_at := now\<rparr>)
          \<and> (\<forall>x. x \<noteq> bid \<longrightarrow>
                fetch_budget (snd (activate_budget s bid now lu lt)) x = fetch_budget s x)
          \<and> budget_lines (snd (activate_budget s bid now lu lt)) = budget_lines s
          \<and> expenditures (snd (activate_budget s bid now lu lt)) = expenditures s)
       \<and> (status b = ACTIVE \<longrightarrow>
            fetch_budget (snd (close_budget s bid now lu lt)) bid
              = Some (b\<lparr>status := CLOSED, updated_at := now\<rparr>)
          \<and> (\<forall>x. x \<noteq> bid \<longrightarrow>
                fetch_budget (snd (close_budget s bid now lu lt)) x = fetch_budget s x)
          \<and> budget_lines (snd (close_budget s bid now lu lt)) = budget_lines s
          \<and> expenditures (snd (close_budget s bid now lu lt)) = expenditures s)"
  using assms
  by (simp add: activate_budget_def close_budget_def fetch_budget_update
        fetch_budget_update_other)

theorem activate_and_close_frame_witness:
  "fetch_budget store_approved ''b1''
     = Some \<lparr>title = ''FY2025 Budget'', fiscal_year = 2025, total_amount = 1000000,
              department = ''Finance'', status = APPROVED, budget_id = ''b1'',
              created_at = ''t0'', updated_at = ''t1'', approved_by = Some ''Director'',
              approved_at = Some ''t1'', budget_notes = []\<rparr>
   \<and> fetch_budget (snd (activate_budget store_approved ''b1'' ''t2'' ''g3'' ''t2'')) ''b1''
     = Some \<lparr>title = ''FY2025 Budget'', fiscal_year = 2025, total_amount = 1000000,
              department = ''Finance'', status = ACTIVE, budget_id = ''b1'',
              created_at = ''t0'', updated_at = ''t2'', approved_by = Some ''Director'',
              approved_at = Some ''t1'', budget_notes = []\<rparr>
   \<and> fetch_budget store_active ''b1''
     = Some \<lparr>title = ''FY2025 Budget'', fiscal_year = 2025, total_amount = 1000000,
              department = ''Finance'', status = ACTIVE, budget_id = ''b1'',
              created_at = ''t0'', updated_at = ''t2'', approved_by = Some ''Director'',
              approved_at = Some ''t1'', budget_notes = []\<rparr>
   \<and> fetch_budget (snd (close_budget store_active ''b1'' ''t3'' ''g4'' ''t3'')) ''b1''
     = Some \<lparr>title = ''FY2025 Budget'', fiscal_year = 2025, total_amount = 1000000,
              department = ''Finance'', status = CLOSED, budget_id = ''b1'',
              created_at = ''t0'', updated_at = ''t3'', approved_by = Some ''Director'',
              approved_at = Some ''t1'', budget_notes = []\<rparr>"
proof -
  let ?approved = "\<lparr>title = ''FY2025 Budget'', fiscal_year = 2025, total_amount = 1000000,
              department = ''Finance'', status = APPROVED, budget_id = ''b1'',
              created_at = ''t0'', updated_at = ''t1'', approved_by = Some ''Director'',
              approved_at = Some ''t1'', budget_notes = []\<rparr>"
  let ?active = "\<lparr>title = ''FY2025 Budget'', fiscal_year = 2025, total_amount = 1000000,
              department = ''Finance'', status = ACTIVE, budget_id = ''b1'',
              created_at = ''t0'', updated_at = ''t2'', approved_by = Some ''Director'',
              approved_at = Some ''t1'', budget_notes = []\<rparr>"
  have approved: "fetch_budget store_approved ''b1'' = Some ?approved"
    by (simp add: store_approved_def store_draft_def op_defs)
  have active: "fetch_budget store_active ''b1'' = Some ?active"
    by (simp add: store_active_def store_approved_def store_draft_def op_defs)
  from activate_and_close_frame [OF approved, of "''t2''" "''g3''" "''t2''"]
  have 1: "fetch_budget (snd (activate_budget store_approved ''b1'' ''t2'' ''g3'' ''t2'')) ''b1''
     = Some \<lparr>title = ''FY2025 Budget'', fiscal_year = 2025, total_amount = 1000000,
              department = ''Finance'', status = ACTIVE, budget_id = ''b1'',
              created_at = ''t0'', updated_at = ''t2'', approved_by = Some ''Director'',
              approved_at = Some ''t1'', budget_notes = []\<rparr>"
    by simp
  from activate_and_close_frame [OF active, of "''t3''" "''g4''" "''t3''"]
  have 2: "fetch_budget (snd (close_budget store_active ''b1'' ''t3'' ''g4'' ''t3'')) ''b1''
     = Some \<lparr>title = ''FY2025 Budget'', fiscal_year = 2025, total_amount = 1000000,
              department = ''Finance'', status = CLOSED, budget_id = ''b1'',
              created_at = ''t0'', updated_at = ''t3'', approved_by = Some ''Director'',
              approved_at = Some ''t1'', budget_notes = []\<rparr>"
    by simp
  from approved active 1 2 show ?thesis by simp
qed

end
